theory Spec2Isabelle
  imports Main "HOL-Library.Sublist" "HOL-Library.Char_ord" "HOL-Library.List_Lexorder"
    "HOL-Library.Product_Lexorder" "HOL-Library.Multiset"
begin

section \<open>conbuilder: layered package builds on overlay mounts\<close>

text \<open>
  A shallow embedding of \<^verbatim>\<open>conbuilder.py\<close>. Python strings are \<open>string\<close>; a
  \<^verbatim>\<open>pathlib.Path\<close> is the string it prints as. Exceptions are values of \<open>exn\<close>.
\<close>

subsection \<open>Exceptions\<close>

datatype exn =
    CommandFailed string int  \<comment> \<open>\<^verbatim>\<open>Exception("'{}' returned {}")\<close> raised by \<^verbatim>\<open>run\<close>\<close>
  | UnicodeDecodeError
  | AssertionError
  | ValueError
  | TypeError
  | IndexError
  | OSError
  | SystemExit int
  | NotImplementedError

subsection \<open>Parsing the dependency tool's output\<close>

text \<open>
  \<^verbatim>\<open>line.split(" ", n)\<close>: cut at each of the first \<open>n\<close> single spaces; what is left
  after the last cut is one field.
\<close>

fun split_sp :: "nat \<Rightarrow> string \<Rightarrow> string list" where
  "split_sp 0 s = [s]"
| "split_sp (Suc n) s =
     (if CHR '' '' \<in> set s
      then takeWhile (\<lambda>c. c \<noteq> CHR '' '') s # split_sp n (tl (dropWhile (\<lambda>c. c \<noteq> CHR '' '') s))
      else [s])"

text \<open>
  The body of the loop of \<^verbatim>\<open>_parse_build_deps\<close> for a line that starts with
  \<^verbatim>\<open>"Inst "\<close>: unpacking into four names raises \<^verbatim>\<open>ValueError\<close> unless the split
  gives four fields; the two \<^verbatim>\<open>assert\<close>s raise \<^verbatim>\<open>AssertionError\<close>.
\<close>

definition parse_line :: "string \<Rightarrow> exn + (string \<times> string)" where
  "parse_line line =
     (case split_sp 3 line of
        [_, pkgname, version, _] \<Rightarrow>
          (if \<not> prefix ''('' version then Inl AssertionError
           else if drop 1 version = [] then Inl AssertionError
           else Inr (pkgname, drop 1 version))
      | _ \<Rightarrow> Inl ValueError)"

fun parse_loop :: "(string \<times> string) set \<Rightarrow> string list \<Rightarrow> exn + (string \<times> string) set" where
  "parse_loop deps [] = Inr deps"
| "parse_loop deps (line # out) =
     (if \<not> prefix ''Inst '' line then parse_loop deps out
      else (case parse_line line of
              Inl e \<Rightarrow> Inl e
            | Inr d \<Rightarrow> parse_loop (insert d deps) out))"

text \<open>\<^verbatim>\<open>_parse_build_deps\<close>: \<^verbatim>\<open>deps = set()\<close>, the loop, \<^verbatim>\<open>sorted(deps)\<close>.\<close>

definition parse_build_deps :: "string list \<Rightarrow> exn + (string \<times> string) list" where
  "parse_build_deps out =
     (case parse_loop {} out of
        Inl e \<Rightarrow> Inl e
      | Inr deps \<Rightarrow> Inr (sorted_list_of_set deps))"

subsection \<open>The operating system and the Python library\<close>

text \<open>
  Everything the program reaches outside itself is a field of \<open>sys\<close>, over a type
  \<open>'w\<close> of worlds (the file system, the mount table, the external tools' state):
  a child process (\<^verbatim>\<open>Popen(cmd, shell=True)\<close>, giving its return code, the lines
  of its standard output and the bytes of its standard error, and changing the world), the file system calls of
  \<^verbatim>\<open>os\<close> and \<^verbatim>\<open>pathlib\<close> (\<open>None\<close> is an \<^verbatim>\<open>OSError\<close>), and the library
  functions: \<^verbatim>\<open>os.path.abspath\<close>, \<^verbatim>\<open>pathlib\<close>'s \<^verbatim>\<open>p / c\<close> and \<^verbatim>\<open>p.name\<close> on the
  strings that paths print as, \<^verbatim>\<open>bytes.decode()\<close> (\<open>None\<close> is a
  \<^verbatim>\<open>UnicodeDecodeError\<close>), \<^verbatim>\<open>repr\<close> on strings and
  \<^verbatim>\<open>hashlib.sha224(b).hexdigest()\<close>. Nothing is assumed of them: every theorem holds for every
  \<open>sys\<close>, so for every way the tools succeed or fail.
\<close>

record 'w sys =
  os_popen :: "string \<Rightarrow> 'w \<Rightarrow> (int \<times> string list \<times> string) \<times> 'w"
  os_exists :: "string \<Rightarrow> 'w \<Rightarrow> bool"
  os_is_file :: "string \<Rightarrow> 'w \<Rightarrow> bool"
  os_is_dir :: "string \<Rightarrow> 'w \<Rightarrow> bool"
  os_makedirs :: "bool \<Rightarrow> string \<Rightarrow> 'w \<Rightarrow> 'w option"
  os_write :: "string \<Rightarrow> string \<Rightarrow> 'w \<Rightarrow> 'w option"
  os_iterdir :: "string \<Rightarrow> 'w \<Rightarrow> string list option"
  os_read :: "string \<Rightarrow> 'w \<Rightarrow> string list option"
  os_abspath :: "string \<Rightarrow> string"
  path_join :: "string \<Rightarrow> string \<Rightarrow> string"
  path_name :: "string \<Rightarrow> string"
  py_decode :: "string \<Rightarrow> string option"
  py_repr :: "string \<Rightarrow> string"
  sha224_hexdigest :: "string \<Rightarrow> string"

text \<open>
  What a run does to the outside is recorded, in order: the commands started, the
  directories and files the program itself creates, and the calls of \<^verbatim>\<open>mount\<close> and
  \<^verbatim>\<open>umount\<close> (\<open>Mounted\<close> when \<^verbatim>\<open>mount\<close> returns, that is after its check). The
  program removes nothing itself (it has no \<^verbatim>\<open>rmtree\<close>, \<^verbatim>\<open>unlink\<close> or
  \<^verbatim>\<open>rmdir\<close>), so there is no event for that.
\<close>

datatype event =
    Popen string
  | Makedirs string
  | Write string string
  | MountCall string
  | Mounted string
  | UmountCall string

text \<open>
  A statement of the program maps a world to its outcome (an exception or a value),
  the world it leaves and the events it caused. The events are part of the outcome
  also when it is an exception: they happened before the caller sees it.
\<close>

type_synonym ('w, 'a) io = "'w \<Rightarrow> (exn + 'a) \<times> 'w \<times> event list"

definition res :: "(exn + 'a) \<times> 'w \<times> event list \<Rightarrow> exn + 'a" where
  "res r = fst r"

definition world :: "(exn + 'a) \<times> 'w \<times> event list \<Rightarrow> 'w" where
  "world r = fst (snd r)"

definition evs :: "(exn + 'a) \<times> 'w \<times> event list \<Rightarrow> event list" where
  "evs r = snd (snd r)"

definition ret :: "'a \<Rightarrow> ('w, 'a) io" where
  "ret a w = (Inr a, w, [])"

definition raise :: "exn \<Rightarrow> ('w, 'a) io" where
  "raise e w = (Inl e, w, [])"

definition lift :: "exn + 'a \<Rightarrow> ('w, 'a) io" where
  "lift r w = (r, w, [])"

definition emit :: "event \<Rightarrow> ('w, unit) io" where
  "emit e w = (Inr (), w, [e])"

text \<open>\<open>bind m f\<close> is \<^verbatim>\<open>x = m; f(x)\<close>: an exception of \<open>m\<close> skips \<open>f\<close>.\<close>

definition bind :: "('w, 'a) io \<Rightarrow> ('a \<Rightarrow> ('w, 'b) io) \<Rightarrow> ('w, 'b) io" where
  "bind m f w =
     (case m w of
        (Inl e, w1, t1) \<Rightarrow> (Inl e, w1, t1)
      | (Inr a, w1, t1) \<Rightarrow> (case f a w1 of (r, w2, t2) \<Rightarrow> (r, w2, t1 @ t2)))"

text \<open>
  \<^verbatim>\<open>try: body finally: fin\<close>: \<open>fin\<close> runs whatever \<open>body\<close> did; an exception of
  \<open>fin\<close> replaces the outcome of \<open>body\<close>, otherwise that outcome stands.
\<close>

definition try_finally :: "('w, 'a) io \<Rightarrow> ('w, unit) io \<Rightarrow> ('w, 'a) io" where
  "try_finally body fin w =
     (case body w of
        (r, w1, t1) \<Rightarrow>
          (case fin w1 of
             (Inl e, w2, t2) \<Rightarrow> (Inl e, w2, t1 @ t2)
           | (Inr _, w2, t2) \<Rightarrow> (r, w2, t1 @ t2)))"

text \<open>\<^verbatim>\<open>assert c\<close>, for a condition on the world.\<close>

definition assert_that :: "('w \<Rightarrow> bool) \<Rightarrow> ('w, unit) io" where
  "assert_that c w = (if c w then (Inr (), w, []) else (Inl AssertionError, w, []))"

text \<open>
  \<^verbatim>\<open>p / c\<close> on paths is \<^verbatim>\<open>pathlib\<close>'s: it may drop \<open>p\<close> for an absolute \<open>c\<close> and
  it normalises the result. It is the library's function, taken from \<open>sys\<close> as it is.
\<close>

definition pjoin :: "'w sys \<Rightarrow> string \<Rightarrow> string \<Rightarrow> string" where
  "pjoin sys p c = path_join sys p c"

subsection \<open>Logging\<close>

text \<open>
  \<^verbatim>\<open>info(*a)\<close> and \<^verbatim>\<open>error(*a)\<close> start with \<^verbatim>\<open>" ".join(a)\<close>, which raises
  \<^verbatim>\<open>TypeError\<close> unless every item is a \<^verbatim>\<open>str\<close>; then they print. The terminal is
  not part of the world, and \<^verbatim>\<open>colors\<close> is the table \<^verbatim>\<open>main\<close> sets before any
  action. An argument is a \<^verbatim>\<open>str\<close> or a \<^verbatim>\<open>pathlib.Path\<close>: every directory the
  program derives from \<^verbatim>\<open>conf.cachedir\<close> (itself \<^verbatim>\<open>Path(...)\<close>) with \<^verbatim>\<open>/\<close> is a
  \<^verbatim>\<open>Path\<close>. Four calls pass one: lines 256, 284, 338 and 391.
\<close>

datatype pyval = is_Str: Str string | PathV string

definition info :: "pyval list \<Rightarrow> exn + unit" where
  "info a = (if list_all is_Str a then Inr () else Inl TypeError)"

definition error :: "pyval list \<Rightarrow> exn + unit" where
  "error a = (if list_all is_Str a then Inr () else Inl TypeError)"

subsection \<open>Running commands, mounting\<close>

text \<open>\<^verbatim>\<open>bytes.rstrip()\<close> removes trailing ASCII whitespace.\<close>

definition is_space :: "char \<Rightarrow> bool" where
  "is_space c = (c \<in> set [CHR '' '', CHR 0x09, CHR 0x0A, CHR 0x0D, CHR 0x0B, CHR 0x0C])"

definition rstrip :: "string \<Rightarrow> string" where
  "rstrip s = rev (dropWhile is_space (rev s))"

text \<open>
  The loop of \<^verbatim>\<open>run\<close> over the lines the process prints: each is stripped and
  decoded, \<^verbatim>\<open>line.rstrip().decode()\<close>, and the loop ends at the first line that
  does not decode.
\<close>

fun decode_lines :: "'w sys \<Rightarrow> string list \<Rightarrow> exn + string list" where
  "decode_lines sys [] = Inr []"
| "decode_lines sys (line # lines) =
     (case py_decode sys (rstrip line) of
        None \<Rightarrow> Inl UnicodeDecodeError
      | Some s \<Rightarrow>
          (case decode_lines sys lines of
             Inl e \<Rightarrow> Inl e
           | Inr out \<Rightarrow> Inr (s # out)))"

text \<open>
  \<^verbatim>\<open>run(cmd, quietcmd, quiet)\<close>: start the command, collect its output lines and
  raise when its return code is not zero, after decoding what it wrote to its standard
  error (\<^verbatim>\<open>proc.stderr.read().decode()\<close>). The two flags only choose what is printed
  (\<^verbatim>\<open>info(cmd)\<close>, \<^verbatim>\<open>info(line)\<close>, on strings), so the model has neither.
\<close>

definition run :: "'w sys \<Rightarrow> string \<Rightarrow> ('w, string list) io" where
  "run sys cmd w =
     (case os_popen sys cmd w of
        ((rc, lines, err), w1) \<Rightarrow>
          ((case decode_lines sys lines of
              Inl e \<Rightarrow> Inl e
            | Inr out \<Rightarrow>
                if rc \<noteq> 0
                then (case py_decode sys err of
                        None \<Rightarrow> Inl UnicodeDecodeError
                      | Some _ \<Rightarrow> Inl (CommandFailed cmd rc))
                else Inr out),
           w1, [Popen cmd]))"

definition mount_cmd :: "string \<Rightarrow> string \<Rightarrow> string \<Rightarrow> string \<Rightarrow> string" where
  "mount_cmd lower upper work mnt =
     ''sudo mount -t overlay overlay -olowerdir='' @ lower @ '',upperdir='' @ upper
       @ '',workdir='' @ work @ '' '' @ mnt"

definition mount :: "'w sys \<Rightarrow> string \<Rightarrow> string \<Rightarrow> string \<Rightarrow> string \<Rightarrow> ('w, unit) io" where
  "mount sys lower upper work mnt =
     bind (emit (MountCall mnt)) (\<lambda>_.
     bind (run sys (mount_cmd lower upper work mnt)) (\<lambda>_.
     bind (assert_that (os_is_file sys (pjoin sys mnt ''usr/bin/apt''))) (\<lambda>_.
     emit (Mounted mnt))))"

definition umount_cmd :: "string \<Rightarrow> string" where
  "umount_cmd path = ''sudo umount '' @ path"

definition umount :: "'w sys \<Rightarrow> string \<Rightarrow> ('w, unit) io" where
  "umount sys path =
     bind (emit (UmountCall path)) (\<lambda>_.
     bind (run sys (umount_cmd path)) (\<lambda>_. ret ()))"

definition nspawn_cmd :: "string \<Rightarrow> string \<Rightarrow> string \<Rightarrow> string" where
  "nspawn_cmd rcmd drop_capability system_call_filter =
     ''sudo systemd-nspawn -M conbuilder --chdir=/srv ''
       @ (if drop_capability \<noteq> [] then ''--drop-capability='' @ drop_capability @ '' '' else [])
       @ (if system_call_filter \<noteq> [] then ''--system-call-filter='' @ system_call_filter @ '' '' else [])
       @ rcmd"

definition nspawn :: "'w sys \<Rightarrow> string \<Rightarrow> string \<Rightarrow> string \<Rightarrow> ('w, string list) io" where
  "nspawn sys rcmd drop_capability system_call_filter =
     run sys (nspawn_cmd rcmd drop_capability system_call_filter)"

text \<open>\<^verbatim>\<open>os.makedirs(p)\<close>, \<^verbatim>\<open>p.mkdir(parents=True)\<close> and, with the flag, \<^verbatim>\<open>exist_ok=True\<close>.\<close>

definition mkdirs :: "'w sys \<Rightarrow> bool \<Rightarrow> string \<Rightarrow> ('w, unit) io" where
  "mkdirs sys exist_ok p w =
     (case os_makedirs sys exist_ok p w of
        None \<Rightarrow> (Inl OSError, w, [Makedirs p])
      | Some w1 \<Rightarrow> (Inr (), w1, [Makedirs p]))"

text \<open>\<^verbatim>\<open>with p.open("w") as f: f.write(data)\<close>.\<close>

definition write_file :: "'w sys \<Rightarrow> string \<Rightarrow> string \<Rightarrow> ('w, unit) io" where
  "write_file sys p data w =
     (case os_write sys p data w of
        None \<Rightarrow> (Inl OSError, w, [Write p data])
      | Some w1 \<Rightarrow> (Inr (), w1, [Write p data]))"

subsection \<open>Configuration and layout\<close>

text \<open>What \<^verbatim>\<open>load_conf_and_parse_args\<close> returns, as far as the actions read it.\<close>

record conf =
  action :: string
  codename :: string
  verbose :: nat
  extra_args :: "string list"
  cachedir :: string
  export_dir :: string
  drop_capability :: string
  system_call_filter :: string

text \<open>\<^verbatim>\<open>conf.cachedir / "l1" / conf.codename\<close>.\<close>

definition l1_dir :: "'w sys \<Rightarrow> conf \<Rightarrow> string" where
  "l1_dir sys conf = pjoin sys (pjoin sys (cachedir conf) ''l1'') (codename conf)"

text \<open>\<^verbatim>\<open>conf.cachedir / tier / kind / dep_hash\<close>.\<close>

definition layer_dir :: "'w sys \<Rightarrow> conf \<Rightarrow> string \<Rightarrow> string \<Rightarrow> string \<Rightarrow> string" where
  "layer_dir sys conf tier kind dep_hash = pjoin sys (pjoin sys (pjoin sys (cachedir conf) tier) kind) dep_hash"

text \<open>\<^verbatim>\<open>sep.join(xs)\<close>.\<close>

fun join :: "string \<Rightarrow> string list \<Rightarrow> string" where
  "join sep [] = []"
| "join sep [x] = x"
| "join sep (x # y # ys) = x @ sep @ join sep (y # ys)"

subsection \<open>The fingerprint\<close>

text \<open>\<^verbatim>\<open>str\<close> of a list of pairs of strings.\<close>

definition str_of_deps :: "'w sys \<Rightarrow> (string \<times> string) list \<Rightarrow> string" where
  "str_of_deps sys deps =
     ''['' @ join '', '' (map (\<lambda>(name, ver). ''('' @ py_repr sys name @ '', '' @ py_repr sys ver @ '')'') deps) @ '']''"

text \<open>
  Lines 190 to 195 of \<^verbatim>\<open>extract_build_dependencies\<close>, on the output lines \<open>out\<close> of
  the simulated run: parse, then
  \<^verbatim>\<open>hashlib.sha224(str(sorted(deps)).encode()).hexdigest()[:10]\<close>.
\<close>

definition deps_and_fingerprint :: "'w sys \<Rightarrow> string list \<Rightarrow> exn + ((string \<times> string) list \<times> string)" where
  "deps_and_fingerprint sys out =
     (case parse_build_deps out of
        Inl e \<Rightarrow> Inl e
      | Inr deps \<Rightarrow> Inr (deps, take 10 (sha224_hexdigest sys (str_of_deps sys (sort deps)))))"

definition sim_cmd :: "string \<Rightarrow> string" where
  "sim_cmd l1dir =
     ''-D '' @ l1dir @ '' --read-only '' @ ''--overlay=$(pwd)::/srv  -- /usr/bin/apt-get build-dep -s .''"

definition extract_build_dependencies :: "'w sys \<Rightarrow> string \<Rightarrow> ('w, (string \<times> string) list \<times> string) io" where
  "extract_build_dependencies sys l1dir =
     bind (nspawn sys (sim_cmd l1dir) [] []) (\<lambda>out.
     lift (deps_and_fingerprint sys out))"

subsection \<open>The base system (L1)\<close>

definition debootstrap_cmd :: "conf \<Rightarrow> string \<Rightarrow> string" where
  "debootstrap_cmd conf l1dir =
     ''sudo debootstrap --include=apt  --force-check-gpg '' @ codename conf @ '' '' @ l1dir
       @ '' http://deb.debian.org/debian''"

definition create_l1 :: "'w sys \<Rightarrow> conf \<Rightarrow> string \<Rightarrow> ('w, unit) io" where
  "create_l1 sys conf l1dir w =
     (if os_exists sys l1dir w
      then bind (lift (error [Str ''Error: the base filesystem (L1) already exists''])) (\<lambda>_.
           raise (SystemExit 1)) w
      else bind (lift (info [Str ''Creating'', PathV l1dir])) (\<lambda>_.
           bind (mkdirs sys False l1dir) (\<lambda>_.
           bind (run sys (debootstrap_cmd conf l1dir)) (\<lambda>_.
           bind (assert_that (os_is_file sys (pjoin sys l1dir ''usr/bin/apt''))) (\<lambda>_.
           assert_that (os_is_dir sys (pjoin sys l1dir ''etc'')))))) w)"

definition update_cmd :: "string \<Rightarrow> string" where
  "update_cmd l1dir = ''-D '' @ l1dir @ '' -- /usr/bin/apt-get -y update''"

definition upgrade_cmd :: "string \<Rightarrow> string" where
  "upgrade_cmd l1dir =
     ''-D '' @ l1dir @ '' -E DEBIAN_FRONTEND=noninteractive -- /usr/bin/apt-get -y dist-upgrade''"

definition update_l1 :: "'w sys \<Rightarrow> conf \<Rightarrow> string \<Rightarrow> ('w, unit) io" where
  "update_l1 sys conf l1dir =
     bind (lift (info [Str (''Updating '' @ l1dir)])) (\<lambda>_.
     bind (nspawn sys (update_cmd l1dir) [] []) (\<lambda>_.
     bind (nspawn sys (upgrade_cmd l1dir) [] []) (\<lambda>_.
     ret ())))"

subsection \<open>The dependency layer (L2)\<close>

definition install_deps_cmd :: "string \<Rightarrow> string" where
  "install_deps_cmd l2mountdir =
     ''-D '' @ l2mountdir
       @ '' -E DEBIAN_FRONTEND=noninteractive --overlay=$(pwd)::/srv  -- /usr/bin/apt-get build-dep -y .''"

text \<open>
  The command line 300 of \<^verbatim>\<open>create_l2\<close> assigns to \<^verbatim>\<open>cmd\<close>; the placeholder is
  never filled in and nothing reads \<^verbatim>\<open>cmd\<close> afterwards. Filled in and handed to
  \<^verbatim>\<open>nspawn\<close> as line 296's command is, it would be this one.
\<close>

definition clean_cmd :: "string \<Rightarrow> string" where
  "clean_cmd l2mountdir = ''-D '' @ l2mountdir @ '' --overlay=$(pwd)::/srv  -- /usr/bin/apt-get clean''"

text \<open>Lines 285 to 305 of \<^verbatim>\<open>create_l2\<close>: all of it after the first logging call.\<close>

definition create_l2_steps ::
    "'w sys \<Rightarrow> conf \<Rightarrow> string \<Rightarrow> string \<Rightarrow> string \<Rightarrow> string \<Rightarrow> (string \<times> string) list \<Rightarrow> ('w, unit) io" where
  "create_l2_steps sys conf l1dir l2dir l2workdir l2mountdir expected_deps =
     bind (mkdirs sys False l2dir) (\<lambda>_.
     bind (mkdirs sys False l2workdir) (\<lambda>_.
     bind (mkdirs sys False l2mountdir) (\<lambda>_.
     try_finally
       (bind (mount sys l1dir l2dir l2workdir l2mountdir) (\<lambda>_.
        let deps_list = map (\<lambda>(name, ver). name @ '':'' @ ver) expected_deps in
        bind (lift (info [Str ''[L2] Installing dependencies...''])) (\<lambda>_.
        bind (lift (if verbose conf = 0 then info [Str ''[L2]'', Str (join '' '' deps_list)] else Inr ())) (\<lambda>_.
        bind (nspawn sys (install_deps_cmd l2mountdir) [] []) (\<lambda>out.
        bind (lift (parse_build_deps out)) (\<lambda>_.
        let cmd = ''-D {} --overlay=$(pwd)::/srv  -- /usr/bin/apt-get clean'' in
        write_file sys (pjoin sys l2mountdir ''.deps.conbuilder'') (join [CHR 0x0A] deps_list)))))))
       (umount sys l2mountdir))))"

definition create_l2 ::
    "'w sys \<Rightarrow> conf \<Rightarrow> string \<Rightarrow> string \<Rightarrow> string \<Rightarrow> string \<Rightarrow> (string \<times> string) list \<Rightarrow> ('w, unit) io" where
  "create_l2 sys conf l1dir l2dir l2workdir l2mountdir expected_deps =
     bind (lift (info [Str ''[L2] Creating'', PathV l2dir])) (\<lambda>_.
     create_l2_steps sys conf l1dir l2dir l2workdir l2mountdir expected_deps)"

subsection \<open>The build\<close>

text \<open>\<^verbatim>\<open>for c in cmds: run(c)\<close>.\<close>

fun run_all :: "'w sys \<Rightarrow> string list \<Rightarrow> ('w, unit) io" where
  "run_all sys [] w = ret () w"
| "run_all sys (c # cs) w = bind (run sys c) (\<lambda>_. run_all sys cs) w"

definition copy_src_cmd :: "'w sys \<Rightarrow> string \<Rightarrow> string" where
  "copy_src_cmd sys l3mountdir = ''sudo cp -a . '' @ pjoin sys l3mountdir ''srv''"

definition buildpackage_cmd :: "conf \<Rightarrow> string \<Rightarrow> string" where
  "buildpackage_cmd conf l3mountdir =
     ''--private-network -D '' @ l3mountdir @ '' -- /usr/bin/dpkg-buildpackage '' @ join '' '' (extra_args conf)"

definition export_cmds :: "string \<Rightarrow> string \<Rightarrow> string list" where
  "export_cmds l3dir dest =
     map (\<lambda>e. ''cp -a '' @ l3dir @ ''/*.'' @ e @ '' '' @ dest @ ''/ || true'')
       [''deb'', ''changes'', ''xz'', ''gz'', ''buildinfo'', ''dsc'']"

text \<open>
  Lines 342 to 356 of \<^verbatim>\<open>build\<close>, the inner \<^verbatim>\<open>try\<close>: mount L3 on the mount point of
  L2, copy the source tree, build, unmount. Its value is the flag \<^verbatim>\<open>success\<close>, which
  line 353 sets.
\<close>

definition build_l3 :: "'w sys \<Rightarrow> conf \<Rightarrow> string \<Rightarrow> ('w, bool) io" where
  "build_l3 sys conf dep_hash =
     (let l2mountdir = layer_dir sys conf ''l2'' ''overlay_mount'' dep_hash;
          l3dir = layer_dir sys conf ''l3'' ''fs'' dep_hash;
          l3workdir = layer_dir sys conf ''l3'' ''overlay_work'' dep_hash;
          l3mountdir = layer_dir sys conf ''l3'' ''overlay_mount'' dep_hash
      in
      try_finally
        (bind (mount sys l2mountdir l3dir l3workdir l3mountdir) (\<lambda>_.
         bind (run sys (copy_src_cmd sys l3mountdir)) (\<lambda>_.
         bind (nspawn sys (buildpackage_cmd conf l3mountdir)
                 (drop_capability conf) (system_call_filter conf)) (\<lambda>_.
         ret True))))
        (umount sys l3mountdir))"

text \<open>Lines 361 to 374 of \<^verbatim>\<open>build\<close>: what follows the two \<^verbatim>\<open>try\<close> blocks.\<close>

definition export_artifacts :: "'w sys \<Rightarrow> conf \<Rightarrow> string \<Rightarrow> bool \<Rightarrow> ('w, unit) io" where
  "export_artifacts sys conf dep_hash success =
     (let l3dir = layer_dir sys conf ''l3'' ''fs'' dep_hash in
      if \<not> success then ret ()
      else if export_dir conf \<noteq> []
      then bind (run_all sys (export_cmds l3dir (os_abspath sys (export_dir conf)))) (\<lambda>_.
           lift (info [Str (CHR 0x0A # ''[Success]'')]))
      else lift (info [Str (CHR 0x0A # ''[Success] Output is at '' @ l3dir)]))"

text \<open>Lines 327 to 374 of \<^verbatim>\<open>build\<close>: what follows the fingerprint.\<close>

definition build_layers :: "'w sys \<Rightarrow> conf \<Rightarrow> string \<Rightarrow> (string \<times> string) list \<Rightarrow> string \<Rightarrow> ('w, unit) io" where
  "build_layers sys conf l1dir deps dep_hash =
     (let l2dir = layer_dir sys conf ''l2'' ''fs'' dep_hash;
          l2workdir = layer_dir sys conf ''l2'' ''overlay_work'' dep_hash;
          l2mountdir = layer_dir sys conf ''l2'' ''overlay_mount'' dep_hash;
          l3dir = layer_dir sys conf ''l3'' ''fs'' dep_hash;
          l3workdir = layer_dir sys conf ''l3'' ''overlay_work'' dep_hash;
          l3mountdir = layer_dir sys conf ''l3'' ''overlay_mount'' dep_hash
      in
      bind (\<lambda>w. if \<not> os_exists sys l2dir w
                then create_l2 sys conf l1dir l2dir l2workdir l2mountdir deps w
                else ret () w) (\<lambda>_.
      bind (try_finally
             (bind (mount sys l1dir l2dir l2workdir l2mountdir) (\<lambda>_.
              bind (lift (info [Str ''[L2] Ready''])) (\<lambda>_.
              bind (\<lambda>w. if \<not> os_exists sys l3dir w
                        then bind (lift (info [Str ''[L3] Creating'', PathV l3dir])) (\<lambda>_.
                             bind (mkdirs sys False l3dir) (\<lambda>_.
                             bind (mkdirs sys False l3workdir) (\<lambda>_.
                             mkdirs sys False l3mountdir))) w
                        else ret () w) (\<lambda>_.
              build_l3 sys conf dep_hash))))
             (umount sys l2mountdir))
        (export_artifacts sys conf dep_hash)))"

definition build :: "'w sys \<Rightarrow> conf \<Rightarrow> ('w, unit) io" where
  "build sys conf =
     (let l1dir = l1_dir sys conf in
      bind (\<lambda>w. if \<not> os_exists sys l1dir w then create_l1 sys conf l1dir w else ret () w) (\<lambda>_.
      bind (extract_build_dependencies sys l1dir) (\<lambda>(deps, dep_hash).
      bind (lift (info [Str ''[L1] Ready''])) (\<lambda>_.
      build_layers sys conf l1dir deps dep_hash))))"

subsection \<open>Install\<close>

definition shell_cmd :: "string \<Rightarrow> string" where
  "shell_cmd l2mountdir = ''-D '' @ l2mountdir @ '' -- /bin/bash''"

text \<open>
  Line 403 assigns the package installation to \<^verbatim>\<open>cmd\<close> and line 404 assigns again,
  before any use. Filled in and run as line 404's is, the first would be this one.
\<close>

definition apt_install_cmd :: "string \<Rightarrow> string" where
  "apt_install_cmd l2mountdir = ''-D '' @ l2mountdir @ '' -- /usr/bin/apt install -y /srv/safeeyes_2.0.0-2_all.deb''"

text \<open>Lines 392 to 409 of \<^verbatim>\<open>install\<close>: all of it after the logging call of line 391.\<close>

definition install_steps :: "'w sys \<Rightarrow> conf \<Rightarrow> string \<Rightarrow> string \<Rightarrow> string \<Rightarrow> string \<Rightarrow> ('w, unit) io" where
  "install_steps sys conf l1dir l2dir l2workdir l2mountdir =
     bind (mkdirs sys True l2dir) (\<lambda>_.
     bind (mkdirs sys True l2workdir) (\<lambda>_.
     bind (mkdirs sys True l2mountdir) (\<lambda>_.
     try_finally
       (bind (mount sys l1dir l2dir l2workdir l2mountdir) (\<lambda>_.
        bind (lift (info [Str ''[L2] Ready''])) (\<lambda>_.
        bind (run_all sys (map (\<lambda>fn. ''sudo cp -a '' @ fn @ '' '' @ l2mountdir @ ''/srv/'') (extra_args conf))) (\<lambda>_.
        let cmd = ''-D {} -- /usr/bin/apt install -y /srv/safeeyes_2.0.0-2_all.deb'';
            cmd = ''-D {} -- /bin/bash'';
            cmd = shell_cmd l2mountdir
        in bind (nspawn sys cmd [] []) (\<lambda>_. ret ())))))
       (umount sys l2mountdir))))"

definition install :: "'w sys \<Rightarrow> conf \<Rightarrow> ('w, unit) io" where
  "install sys conf =
     (let l1dir = l1_dir sys conf in
      bind (\<lambda>w. if \<not> os_exists sys l1dir w then create_l1 sys conf l1dir w else ret () w) (\<lambda>_.
      let dep_hash = ''foo'';
          l2dir = layer_dir sys conf ''l2i'' ''fs'' dep_hash;
          l2workdir = layer_dir sys conf ''l2i'' ''overlay_work'' dep_hash;
          l2mountdir = layer_dir sys conf ''l2i'' ''overlay_mount'' dep_hash
      in
      bind (lift (info [Str ''[L2i] Creating'', PathV l2dir])) (\<lambda>_.
      install_steps sys conf l1dir l2dir l2workdir l2mountdir)))"

subsection \<open>Show and the dispatch of \<^verbatim>\<open>main\<close>\<close>

text \<open>The inner loop of \<^verbatim>\<open>show\<close>, over the paths \<^verbatim>\<open>d.iterdir()\<close> gives.\<close>

fun show_items :: "'w sys \<Rightarrow> string list \<Rightarrow> ('w, unit) io" where
  "show_items sys [] w = ret () w"
| "show_items sys (item # items) w =
     bind (run sys (''sudo du -hs '' @ item)) (\<lambda>size.
     bind (lift (case size of
                   [] \<Rightarrow> Inl IndexError
                 | s0 # _ \<Rightarrow> Inr (takeWhile (\<lambda>c. c \<noteq> CHR 0x09) s0))) (\<lambda>size.
     bind (lift (info [Str (''    '' @ path_name sys item
                            @ replicate (35 - length (path_name sys item)) CHR '' '' @ '' '' @ size)])) (\<lambda>_.
     bind (\<lambda>w. if \<not> os_is_file sys (pjoin sys item ''.deps.conbuilder'') w then ret () w
               else (case os_read sys (pjoin sys item ''.deps.conbuilder'') w of
                       None \<Rightarrow> raise OSError w
                     | Some lines \<Rightarrow>
                         bind (lift (if list_all (\<lambda>l. info [Str ''     '', Str (rstrip l)] = Inr ()) lines
                                     then Inr () else Inl TypeError)) (\<lambda>_.
                         lift (info [Str []])) w)) (\<lambda>_.
     show_items sys items)))) w"

fun show_tiers :: "'w sys \<Rightarrow> conf \<Rightarrow> (string \<times> string) list \<Rightarrow> ('w, unit) io" where
  "show_tiers sys conf [] w = ret () w"
| "show_tiers sys conf ((nick, path) # tiers) w =
     bind (lift (info [Str (''  '' @ nick @ '':'')])) (\<lambda>_.
     bind (\<lambda>w. if \<not> os_exists sys (pjoin sys (cachedir conf) path) w then ret () w
               else (case os_iterdir sys (pjoin sys (cachedir conf) path) w of
                       None \<Rightarrow> raise OSError w
                     | Some items \<Rightarrow>
                         bind (show_items sys items) (\<lambda>_.
                         lift (info [Str []])) w)) (\<lambda>_.
     show_tiers sys conf tiers)) w"

definition show_layers :: "'w sys \<Rightarrow> conf \<Rightarrow> ('w, unit) io" where
  "show_layers sys conf =
     bind (lift (info [Str ''Mounted overlays:''])) (\<lambda>_.
     bind (run sys ''mount | grep ^overlay | cat'') (\<lambda>_.
     bind (lift (info [Str ''Running containers:''])) (\<lambda>_.
     bind (run sys ''machinectl list | grep conbuilder | cat'') (\<lambda>_.
     bind (lift (info [Str ''Layers:''])) (\<lambda>_.
     show_tiers sys conf [(''L1'', ''l1''), (''L2'', ''l2/fs''), (''L3'', ''l3/fs'')])))))"

text \<open>
  \<^verbatim>\<open>main\<close> once the configuration is loaded: an \<^verbatim>\<open>if\<close>/\<^verbatim>\<open>elif\<close> for create and
  update, then a second chain for the other actions.
\<close>

definition main :: "'w sys \<Rightarrow> conf \<Rightarrow> ('w, unit) io" where
  "main sys conf =
     bind (if action conf = ''create'' then create_l1 sys conf (l1_dir sys conf)
           else if action conf = ''update'' then update_l1 sys conf (l1_dir sys conf)
           else ret ()) (\<lambda>_.
     if action conf = ''build'' then build sys conf
     else if action conf = ''install'' then install sys conf
     else if action conf = ''purge'' then raise NotImplementedError
     else if action conf = ''show'' then show_layers sys conf
     else ret ())"

subsection \<open>Reading a trace\<close>

text \<open>
  The mount points still open after a trace, innermost first, starting from the
  stack \<open>st\<close>: a call of \<^verbatim>\<open>mount\<close> opens its mount point, a call of \<^verbatim>\<open>umount\<close> must
  name the innermost open one and closes it, and a mount that succeeded must be the
  innermost open one. \<open>None\<close>: some \<^verbatim>\<open>umount\<close> was out of order, or a mount point
  was mounted without a call of \<^verbatim>\<open>mount\<close> still open for it.
\<close>

fun unwind :: "string list \<Rightarrow> event list \<Rightarrow> string list option" where
  "unwind st [] = Some st"
| "unwind st (MountCall m # es) = unwind (m # st) es"
| "unwind st (UmountCall p # es) =
     (case st of
        [] \<Rightarrow> None
      | m # st' \<Rightarrow> if m = p then unwind st' es else None)"
| "unwind st (Popen c # es) = unwind st es"
| "unwind st (Makedirs d # es) = unwind st es"
| "unwind st (Write f d # es) = unwind st es"
| "unwind st (Mounted p # es) =
     (case st of
        [] \<Rightarrow> None
      | m # st' \<Rightarrow> if m = p then unwind st es else None)"

fun is_mount_call :: "event \<Rightarrow> bool" where
  "is_mount_call (MountCall m) = True"
| "is_mount_call e = False"

fun is_mounted :: "event \<Rightarrow> bool" where
  "is_mounted (Mounted m) = True"
| "is_mounted e = False"

fun is_umount_call :: "event \<Rightarrow> bool" where
  "is_umount_call (UmountCall m) = True"
| "is_umount_call e = False"

text \<open>
  The events by which \<^verbatim>\<open>create_l2\<close> would create the L2 layer of a fingerprint: making
  one of its three directories, or the run that installs the dependencies in it.
\<close>

definition l2_creation :: "'w sys \<Rightarrow> conf \<Rightarrow> string \<Rightarrow> event \<Rightarrow> bool" where
  "l2_creation sys conf dep_hash e =
     (e = Makedirs (layer_dir sys conf ''l2'' ''fs'' dep_hash)
      \<or> e = Makedirs (layer_dir sys conf ''l2'' ''overlay_work'' dep_hash)
      \<or> e = Makedirs (layer_dir sys conf ''l2'' ''overlay_mount'' dep_hash)
      \<or> e = Popen (nspawn_cmd (install_deps_cmd (layer_dir sys conf ''l2'' ''overlay_mount'' dep_hash)) [] []))"



subsection \<open>A small system to run the program on\<close>

text \<open>
  A world is the list of the paths that exist. Every command prints the same three
  lines and nothing on its standard error, and all bytes decode; \<open>rc\<close> gives each command's return code. The digest and
  the absolute path of the export directory are fixed texts, and the components joined
  to paths are relative and plain, so that joining is putting a slash between.
\<close>

definition demo_out :: "string list" where
  "demo_out =
     [''Inst libfoo (1.0 Debian:unstable [amd64])'',
      ''Conf libfoo (1.0 Debian:unstable [amd64])'',
      ''Inst libbar (2.0 Debian:unstable [amd64])'']"

definition demo_sys :: "(string \<Rightarrow> int) \<Rightarrow> string list sys" where
  "demo_sys rc =
     \<lparr>os_popen = (\<lambda>cmd w. ((rc cmd, demo_out, []), w)),
      os_exists = (\<lambda>p w. p \<in> set w),
      os_is_file = (\<lambda>p w. p \<in> set w),
      os_is_dir = (\<lambda>p w. p \<in> set w),
      os_makedirs = (\<lambda>exist_ok p w. if p \<in> set w \<and> \<not> exist_ok then None else Some (p # w)),
      os_write = (\<lambda>p d w. Some (p # w)),
      os_iterdir = (\<lambda>p w. Some []),
      os_read = (\<lambda>p w. None),
      os_abspath = (\<lambda>p. ''/home/dev/build-area''),
      path_join = (\<lambda>p c. p @ ''/'' @ c),
      path_name = (\<lambda>p. rev (takeWhile (\<lambda>c. c \<noteq> CHR ''/'') (rev p))),
      py_decode = (\<lambda>b. Some b),
      py_repr = (\<lambda>s. [CHR 0x27] @ s @ [CHR 0x27]),
      sha224_hexdigest = (\<lambda>b. ''0f1e2d3c4b5a69788796a5b4c3d2e1f00f1e2d3c4b5a69788796a5b4'')\<rparr>"

definition demo_conf :: conf where
  "demo_conf =
     \<lparr>action = ''build'', codename = ''sid'', verbose = 0, extra_args = [''-us'', ''-uc''],
      cachedir = ''/c'', export_dir = ''../build-area/'', drop_capability = [],
      system_call_filter = []\<rparr>"

text \<open>All three layers of the demo fingerprint exist, with the file \<^verbatim>\<open>mount\<close> looks for.\<close>

definition demo_world :: "string list" where
  "demo_world =
     [''/c/l1/sid'',
      ''/c/l2/fs/0f1e2d3c4b'',
      ''/c/l2/overlay_mount/0f1e2d3c4b/usr/bin/apt'',
      ''/c/l3/fs/0f1e2d3c4b'',
      ''/c/l3/overlay_mount/0f1e2d3c4b/usr/bin/apt'']"




text \<open>As \<open>demo_sys\<close> needs it: every \<^verbatim>\<open>mount\<close> command fails, every other succeeds.\<close>

definition demo_rc_mount_fails :: "string \<Rightarrow> int" where
  "demo_rc_mount_fails c = (if prefix ''sudo mount '' c then 32 else 0)"

subsection \<open>Properties of traces, for the proofs\<close>

text \<open>
  A statement is \<open>neutral\<close> when it leaves the stack of open mount points as it found
  it, in every world; it \<open>opens\<close> a mount point when it leaves that one on top.
\<close>

definition neutral :: "('w, 'a) io \<Rightarrow> bool" where
  "neutral m = (\<forall>w st. unwind st (evs (m w)) = Some st)"

definition opens :: "string \<Rightarrow> ('w, 'a) io \<Rightarrow> bool" where
  "opens mnt m = (\<forall>w st. unwind st (evs (m w)) = Some (mnt # st))"

text \<open>An outcome with the events \<open>t\<close> before its own.\<close>

definition prepend :: "event list \<Rightarrow> (exn + 'a) \<times> 'w \<times> event list \<Rightarrow> (exn + 'a) \<times> 'w \<times> event list" where
  "prepend t r = (res r, world r, t @ evs r)"


section \<open>Lemmas\<close>

subsection \<open>Outcome, world and events of the basic statements\<close>

lemma ret_simps [simp]: "res (ret a w) = Inr a" "world (ret a w) = w" "evs (ret a w) = []"
  by (simp_all add: ret_def res_def world_def evs_def)

lemma raise_simps [simp]: "res (raise e w) = Inl e" "world (raise e w) = w" "evs (raise e w) = []"
  by (simp_all add: raise_def res_def world_def evs_def)

lemma lift_simps [simp]: "res (lift r w) = r" "world (lift r w) = w" "evs (lift r w) = []"
  by (simp_all add: lift_def res_def world_def evs_def)

lemma emit_simps [simp]: "res (emit e w) = Inr ()" "world (emit e w) = w" "evs (emit e w) = [e]"
  by (simp_all add: emit_def res_def world_def evs_def)

lemma evs_assert_that [simp]: "evs (assert_that c w) = []"
  by (simp add: assert_that_def evs_def)

lemma world_assert_that [simp]: "world (assert_that c w) = w"
  by (simp add: assert_that_def world_def)

lemma evs_run [simp]: "evs (run sys cmd w) = [Popen cmd]"
  by (simp add: run_def evs_def split: prod.splits)

lemma evs_nspawn [simp]: "evs (nspawn sys rcmd dc scf w) = [Popen (nspawn_cmd rcmd dc scf)]"
  by (simp add: nspawn_def)

lemma evs_mkdirs [simp]: "evs (mkdirs sys ok p w) = [Makedirs p]"
  by (simp add: mkdirs_def evs_def split: option.splits)

lemma evs_write_file [simp]: "evs (write_file sys p d w) = [Write p d]"
  by (simp add: write_file_def evs_def split: option.splits)

lemma evs_bind:
  "evs (bind m f w) =
     (case res (m w) of Inl e \<Rightarrow> evs (m w) | Inr a \<Rightarrow> evs (m w) @ evs (f a (world (m w))))"
  by (auto simp: bind_def evs_def res_def world_def split: prod.splits sum.splits)

lemma evs_try_finally:
  "evs (try_finally body fin w) = evs (body w) @ evs (fin (world (body w)))"
  by (auto simp: try_finally_def evs_def world_def split: prod.splits sum.splits)

lemma world_run: "world (run sys cmd w) = snd (os_popen sys cmd w)"
  by (simp add: run_def world_def split: prod.splits)

lemma world_bind:
  "world (bind m f w) =
     (case res (m w) of Inl e \<Rightarrow> world (m w) | Inr a \<Rightarrow> world (f a (world (m w))))"
  by (auto simp: bind_def world_def res_def split: prod.splits sum.splits)

lemma prepend_simps [simp]:
  "res (prepend t r) = res r" "world (prepend t r) = world r" "evs (prepend t r) = t @ evs r"
  by (simp_all add: prepend_def res_def world_def evs_def)

lemma res_bind:
  "res (bind m f w) = (case res (m w) of Inl e \<Rightarrow> Inl e | Inr a \<Rightarrow> res (f a (world (m w))))"
  by (auto simp: bind_def res_def world_def split: prod.splits sum.splits)



lemma io_eqI: "res r = res r' \<Longrightarrow> world r = world r' \<Longrightarrow> evs r = evs r' \<Longrightarrow> r = r'"
  by (cases r; cases r') (simp add: res_def world_def evs_def)

lemma run_all_Nil: "run_all sys [] = ret ()"
  by (rule ext) simp

lemma run_all_Cons: "run_all sys (c # cs) = bind (run sys c) (\<lambda>_. run_all sys cs)"
  by (rule ext) simp

subsection \<open>Mounts and unmounts nest\<close>

lemma unwind_append:
  "unwind st (xs @ ys) = (case unwind st xs of None \<Rightarrow> None | Some st' \<Rightarrow> unwind st' ys)"
  by (induction st xs rule: unwind.induct) (auto split: list.splits)

lemma unwind_counts:
  "unwind st es = Some st' \<Longrightarrow>
     length st + length (filter is_mount_call es) = length st' + length (filter is_umount_call es)"
  by (induction st es rule: unwind.induct) (auto split: list.splits if_splits)

lemma neutral_ret [simp]: "neutral (ret a)"
  by (simp add: neutral_def)

lemma neutral_raise [simp]: "neutral (raise e)"
  by (simp add: neutral_def)

lemma neutral_lift [simp]: "neutral (lift r)"
  by (simp add: neutral_def)

lemma neutral_assert [simp]: "neutral (assert_that c)"
  by (simp add: neutral_def)

lemma neutral_run [simp]: "neutral (run sys cmd)"
  by (simp add: neutral_def)

lemma neutral_nspawn [simp]: "neutral (nspawn sys rcmd dc scf)"
  by (simp add: neutral_def)

lemma neutral_mkdirs [simp]: "neutral (mkdirs sys ok p)"
  by (simp add: neutral_def)

lemma neutral_write_file [simp]: "neutral (write_file sys p d)"
  by (simp add: neutral_def)

lemma neutral_bind: "neutral m \<Longrightarrow> (\<And>a. neutral (f a)) \<Longrightarrow> neutral (bind m f)"
  by (auto simp: neutral_def evs_bind unwind_append split: sum.splits)

lemma neutral_cond: "neutral m \<Longrightarrow> neutral n \<Longrightarrow> neutral (\<lambda>w. if c w then m w else n w)"
  by (simp add: neutral_def)

lemma opens_bind: "opens mnt m \<Longrightarrow> (\<And>a. neutral (f a)) \<Longrightarrow> opens mnt (bind m f)"
  by (auto simp: neutral_def opens_def evs_bind unwind_append split: sum.splits)

lemma opens_mount: "opens mnt (mount sys lower upper work mnt)"
  unfolding opens_def mount_def
  by (simp add: evs_bind split: sum.splits)

lemma closes_umount: "unwind (mnt # st) (evs (umount sys mnt w)) = Some st"
  unfolding umount_def
  by (simp add: evs_bind split: sum.splits)

lemma neutral_try_finally: "opens mnt body \<Longrightarrow> neutral (try_finally body (umount sys mnt))"
  by (simp add: neutral_def opens_def evs_try_finally unwind_append closes_umount)

lemma neutral_run_all [simp]: "neutral (run_all sys cs)"
  by (induction cs) (simp_all add: run_all_Nil run_all_Cons neutral_bind)

lemma create_l1_unfold:
  "create_l1 sys conf l1dir =
    (\<lambda>w. if os_exists sys l1dir w
      then bind (lift (error [Str ''Error: the base filesystem (L1) already exists''])) (\<lambda>_.
           raise (SystemExit 1)) w
      else bind (lift (info [Str ''Creating'', PathV l1dir])) (\<lambda>_.
           bind (mkdirs sys False l1dir) (\<lambda>_.
           bind (run sys (debootstrap_cmd conf l1dir)) (\<lambda>_.
           bind (assert_that (os_is_file sys (pjoin sys l1dir ''usr/bin/apt''))) (\<lambda>_.
           assert_that (os_is_dir sys (pjoin sys l1dir ''etc'')))))) w)"
  by (rule ext) (simp add: create_l1_def)

lemma neutral_create_l1 [simp]: "neutral (create_l1 sys conf l1dir)"
  unfolding create_l1_unfold by (simp add: neutral_cond neutral_bind)

lemma neutral_extract [simp]: "neutral (extract_build_dependencies sys l1dir)"
  by (simp add: extract_build_dependencies_def neutral_bind)

lemma neutral_create_l2_steps [simp]:
  "neutral (create_l2_steps sys conf l1dir l2dir l2workdir l2mountdir deps)"
  unfolding create_l2_steps_def Let_def
  by (intro neutral_bind neutral_try_finally opens_bind opens_mount) simp_all

lemma neutral_create_l2 [simp]:
  "neutral (create_l2 sys conf l1dir l2dir l2workdir l2mountdir deps)"
  by (simp add: create_l2_def neutral_bind)

lemma neutral_build_l3 [simp]: "neutral (build_l3 sys conf dep_hash)"
  unfolding build_l3_def Let_def
  by (intro neutral_try_finally opens_bind opens_mount neutral_bind) simp_all

lemma neutral_export_artifacts [simp]: "neutral (export_artifacts sys conf dep_hash success)"
  by (simp add: export_artifacts_def Let_def neutral_bind)

lemma neutral_build_layers [simp]: "neutral (build_layers sys conf l1dir deps dep_hash)"
  unfolding build_layers_def Let_def
  by (intro neutral_bind neutral_try_finally opens_bind opens_mount neutral_cond)
    (simp_all add: neutral_bind)

lemma neutral_build: "neutral (build sys conf)"
  unfolding build_def Let_def
  by (intro neutral_bind neutral_cond) (simp_all add: split_def neutral_bind)

subsection \<open>What every event of a statement satisfies\<close>

lemma all_bind:
  "list_all Q (evs (m w)) \<Longrightarrow>
   (\<And>a. res (m w) = Inr a \<Longrightarrow> list_all Q (evs (f a (world (m w))))) \<Longrightarrow>
   list_all Q (evs (bind m f w))"
  by (simp add: evs_bind split: sum.splits)

lemma all_try_finally:
  "list_all Q (evs (body w)) \<Longrightarrow> list_all Q (evs (fin (world (body w)))) \<Longrightarrow>
   list_all Q (evs (try_finally body fin w))"
  by (simp add: evs_try_finally)

lemma all_mount:
  "Q (MountCall m) \<Longrightarrow> Q (Popen (mount_cmd l u k m)) \<Longrightarrow> Q (Mounted m) \<Longrightarrow>
   list_all Q (evs (mount sys l u k m w))"
  unfolding mount_def by (simp add: evs_bind split: sum.splits)

lemma all_umount:
  "Q (UmountCall m) \<Longrightarrow> Q (Popen (umount_cmd m)) \<Longrightarrow> list_all Q (evs (umount sys m w))"
  unfolding umount_def by (simp add: evs_bind split: sum.splits)

lemma all_run_all:
  "list_all (\<lambda>c. Q (Popen c)) cs \<Longrightarrow> list_all Q (evs (run_all sys cs w))"
  by (induction cs arbitrary: w) (simp_all add: run_all_Nil run_all_Cons evs_bind split: sum.splits)

lemma evs_extract:
  "evs (extract_build_dependencies sys l1dir w) = [Popen (nspawn_cmd (sim_cmd l1dir) [] [])]"
  by (simp add: extract_build_dependencies_def evs_bind split: sum.splits)

lemma all_if: "(c \<Longrightarrow> list_all Q (evs a)) \<Longrightarrow> (\<not> c \<Longrightarrow> list_all Q (evs b)) \<Longrightarrow>
   list_all Q (evs (if c then a else b))"
  by simp

lemma all_if_fun:
  "list_all Q (evs (m v)) \<Longrightarrow> list_all Q (evs (n v)) \<Longrightarrow>
   list_all Q (evs ((if c then m else n) v))"
  by simp

lemma all_ret: "list_all Q (evs (ret a v))"
  by simp

lemma all_lift: "list_all Q (evs (lift r v))"
  by simp

lemma all_run: "Q (Popen c) \<Longrightarrow> list_all Q (evs (run sys c w))"
  by simp

lemma all_nspawn: "Q (Popen (nspawn_cmd r dc scf)) \<Longrightarrow> list_all Q (evs (nspawn sys r dc scf w))"
  by simp

lemma all_mkdirs: "Q (Makedirs p) \<Longrightarrow> list_all Q (evs (mkdirs sys ok p w))"
  by simp

lemma all_build_l3:
  assumes "Q (MountCall (layer_dir sys conf ''l3'' ''overlay_mount'' h))"
    and "Q (Popen (mount_cmd (layer_dir sys conf ''l2'' ''overlay_mount'' h) (layer_dir sys conf ''l3'' ''fs'' h)
                   (layer_dir sys conf ''l3'' ''overlay_work'' h) (layer_dir sys conf ''l3'' ''overlay_mount'' h)))"
    and "Q (Mounted (layer_dir sys conf ''l3'' ''overlay_mount'' h))"
    and "Q (Popen (copy_src_cmd sys (layer_dir sys conf ''l3'' ''overlay_mount'' h)))"
    and "Q (Popen (nspawn_cmd (buildpackage_cmd conf (layer_dir sys conf ''l3'' ''overlay_mount'' h))
                   (drop_capability conf) (system_call_filter conf)))"
    and "Q (UmountCall (layer_dir sys conf ''l3'' ''overlay_mount'' h))"
    and "Q (Popen (umount_cmd (layer_dir sys conf ''l3'' ''overlay_mount'' h)))"
  shows "list_all Q (evs (build_l3 sys conf h w))"
  unfolding build_l3_def Let_def
  by (intro all_bind all_try_finally all_mount all_umount all_run all_nspawn all_ret assms)

lemma all_export_artifacts:
  assumes "list_all (\<lambda>c. Q (Popen c))
             (export_cmds (layer_dir sys conf ''l3'' ''fs'' h) (os_abspath sys (export_dir conf)))"
  shows "list_all Q (evs (export_artifacts sys conf h success w))"
  unfolding export_artifacts_def Let_def
  by (intro all_if_fun all_bind all_run_all all_ret all_lift assms)

subsection \<open>The parser\<close>

lemma parse_loop_filter:
  "parse_loop deps (filter (prefix ''Inst '') out) = parse_loop deps out"
  by (induction out arbitrary: deps) (auto split: sum.splits)

text \<open>
  The loop returns exactly when every line it looks at parses, and then with the pairs
  of these lines added: a function of the set of lines.
\<close>

lemma parse_loop_Inr:
  "parse_loop deps out = Inr D \<longleftrightarrow>
     (\<forall>l \<in> set out. prefix ''Inst '' l \<longrightarrow> (\<exists>d. parse_line l = Inr d))
     \<and> D = deps \<union> {d. \<exists>l \<in> set out. prefix ''Inst '' l \<and> parse_line l = Inr d}"
proof (induction out arbitrary: deps)
  case Nil
  show ?case by auto
next
  case (Cons l out)
  show ?case
  proof (cases "prefix ''Inst '' l")
    case False
    then show ?thesis using Cons [of deps] by auto
  next
    case True
    show ?thesis
    proof (cases "parse_line l")
      case (Inl e)
      then show ?thesis using True by auto
    next
      case (Inr d)
      then show ?thesis using True Cons [of "insert d deps"] by auto
    qed
  qed
qed

lemma parse_loop_set:
  "set out1 = set out2 \<Longrightarrow> (parse_loop deps out1 = Inr D) = (parse_loop deps out2 = Inr D)"
  by (simp add: parse_loop_Inr)

lemma case_sum_Inr_cong:
  assumes "\<And>y. (a = Inr y) = (b = Inr y)"
  shows "((case a of Inl e \<Rightarrow> Inl e | Inr y \<Rightarrow> Inr (f y)) = Inr z)
       = ((case b of Inl e \<Rightarrow> Inl e | Inr y \<Rightarrow> Inr (f y)) = Inr z)"
proof (cases a)
  case (Inl e)
  then have "\<And>y. b \<noteq> Inr y" using assms by blast
  then obtain e' where "b = Inl e'" by (cases b) blast+
  with Inl show ?thesis by simp
next
  case (Inr y)
  then have "b = Inr y" using assms by blast
  with Inr show ?thesis by simp
qed

lemma parse_build_deps_set:
  assumes "set out1 = set out2"
  shows "(parse_build_deps out1 = Inr ds) = (parse_build_deps out2 = Inr ds)"
  unfolding parse_build_deps_def
  by (rule case_sum_Inr_cong) (rule parse_loop_set [OF assms])

subsection \<open>Where a logging call is handed a path\<close>

lemma create_l1_exists:
  "os_exists sys l1dir w \<Longrightarrow> create_l1 sys conf l1dir w = (Inl (SystemExit 1), w, [])"
  by (simp add: create_l1_def bind_def lift_def error_def raise_def)

lemma create_l1_absent:
  "\<not> os_exists sys l1dir w \<Longrightarrow> create_l1 sys conf l1dir w = (Inl TypeError, w, [])"
  by (simp add: create_l1_def bind_def lift_def info_def)

subsection \<open>Commands that differ\<close>

lemma clean_ne_mount: "mount_cmd l u k m' \<noteq> nspawn_cmd (clean_cmd m) [] []"
  by (simp add: nspawn_cmd_def mount_cmd_def)

lemma clean_ne_umount: "umount_cmd m' \<noteq> nspawn_cmd (clean_cmd m) [] []"
  by (simp add: nspawn_cmd_def umount_cmd_def)

lemma clean_ne_install_deps:
  "nspawn_cmd (install_deps_cmd m) [] [] \<noteq> nspawn_cmd (clean_cmd m) [] []"
  by (simp add: nspawn_cmd_def clean_cmd_def install_deps_cmd_def)

lemma create_l2_steps_never_cleans:
  "list_all (\<lambda>e. e \<noteq> Popen (nspawn_cmd (clean_cmd l2mountdir) [] []))
     (evs (create_l2_steps sys conf l1dir l2dir l2workdir l2mountdir deps w))"
  unfolding create_l2_steps_def Let_def
  by (intro all_bind all_try_finally all_mount all_umount)
    (simp_all add: clean_ne_mount clean_ne_umount clean_ne_install_deps)

lemma install_steps_never_installs:
  "list_all (\<lambda>e. e \<noteq> Popen (nspawn_cmd (apt_install_cmd l2mountdir) [] []))
     (evs (install_steps sys conf l1dir l2dir l2workdir l2mountdir w))"
  unfolding install_steps_def Let_def
  by (intro all_bind all_try_finally all_mount all_umount all_run_all)
    (simp_all add: nspawn_cmd_def mount_cmd_def umount_cmd_def apt_install_cmd_def shell_cmd_def
      list_all_iff)

text \<open>
  Lines 285 to 305 of \<^verbatim>\<open>create_l2\<close> where every step succeeds: three directories,
  the mount on the base system, the installation of the dependencies, the manifest,
  the unmount.
\<close>

lemma create_l2_steps_demo:
  "evs (create_l2_steps (demo_sys (\<lambda>c. 0)) demo_conf ''/c/l1/sid'' ''/c/l2/fs/F''
          ''/c/l2/overlay_work/F'' ''/c/l2/overlay_mount/F'' [(''libbar'', ''2.0''), (''libfoo'', ''1.0'')]
          [''/c/l1/sid'', ''/c/l2/overlay_mount/F/usr/bin/apt''])
   = [Makedirs ''/c/l2/fs/F'', Makedirs ''/c/l2/overlay_work/F'', Makedirs ''/c/l2/overlay_mount/F'',
      MountCall ''/c/l2/overlay_mount/F'',
      Popen (mount_cmd ''/c/l1/sid'' ''/c/l2/fs/F'' ''/c/l2/overlay_work/F'' ''/c/l2/overlay_mount/F''),
      Mounted ''/c/l2/overlay_mount/F'',
      Popen (nspawn_cmd (install_deps_cmd ''/c/l2/overlay_mount/F'') [] []),
      Write ''/c/l2/overlay_mount/F/.deps.conbuilder'' (''libbar:2.0'' @ [CHR 0x0A] @ ''libfoo:1.0''),
      UmountCall ''/c/l2/overlay_mount/F'',
      Popen (umount_cmd ''/c/l2/overlay_mount/F'')]"
  by code_simp

text \<open>
  Lines 392 to 409 of \<^verbatim>\<open>install\<close> where every step succeeds: the directories, the
  mount, one copy for each package file, the shell, the unmount.
\<close>

lemma install_steps_demo:
  "evs (install_steps (demo_sys (\<lambda>c. 0)) (demo_conf\<lparr>extra_args := [''a.deb'', ''b.deb'']\<rparr>)
          ''/c/l1/sid'' ''/c/l2i/fs/foo'' ''/c/l2i/overlay_work/foo'' ''/c/l2i/overlay_mount/foo''
          [''/c/l1/sid'', ''/c/l2i/overlay_mount/foo/usr/bin/apt''])
   = [Makedirs ''/c/l2i/fs/foo'', Makedirs ''/c/l2i/overlay_work/foo'',
      Makedirs ''/c/l2i/overlay_mount/foo'',
      MountCall ''/c/l2i/overlay_mount/foo'',
      Popen (mount_cmd ''/c/l1/sid'' ''/c/l2i/fs/foo'' ''/c/l2i/overlay_work/foo'' ''/c/l2i/overlay_mount/foo''),
      Mounted ''/c/l2i/overlay_mount/foo'',
      Popen ''sudo cp -a a.deb /c/l2i/overlay_mount/foo/srv/'',
      Popen ''sudo cp -a b.deb /c/l2i/overlay_mount/foo/srv/'',
      Popen (nspawn_cmd (shell_cmd ''/c/l2i/overlay_mount/foo'') [] []),
      UmountCall ''/c/l2i/overlay_mount/foo'',
      Popen (umount_cmd ''/c/l2i/overlay_mount/foo'')]"
  by code_simp

subsection \<open>The build where the layers exist\<close>

text \<open>The build after the fingerprint, where the base system exists.\<close>

lemma build_after_fingerprint:
  assumes "os_exists sys (l1_dir sys conf) w0"
    and "extract_build_dependencies sys (l1_dir sys conf) w0 = (Inr (deps, dep_hash), w, t)"
  shows "build sys conf w0 = prepend t (build_layers sys conf (l1_dir sys conf) deps dep_hash w)"
proof -
  have e: "res (extract_build_dependencies sys (l1_dir sys conf) w0) = Inr (deps, dep_hash)"
    "world (extract_build_dependencies sys (l1_dir sys conf) w0) = w"
    "evs (extract_build_dependencies sys (l1_dir sys conf) w0) = t"
    using assms(2) by (simp_all add: res_def world_def evs_def)
  show ?thesis
    by (rule io_eqI)
      (simp_all add: build_def Let_def res_bind world_bind evs_bind assms(1) e info_def)
qed


subsection \<open>Logging a path ends the statement\<close>

lemma info_path: "info [Str a, PathV p] = Inl TypeError"
  by (simp add: info_def)

lemma bind_lift_Inl: "bind (lift (Inl e)) f = lift (Inl e)"
  by (rule ext) (simp add: bind_def lift_def)

lemma bind_info_str: "bind (lift (info [Str s])) f = f ()"
  by (rule ext) (simp add: bind_def lift_def info_def)

lemma create_l2_raises:
  "create_l2 sys conf l1dir l2dir l2workdir l2mountdir deps = lift (Inl TypeError)"
  by (simp add: create_l2_def info_path bind_lift_Inl)

text \<open>\<^verbatim>\<open>create_l1\<close> and \<^verbatim>\<open>build\<close> after line 327 with these calls worked out.\<close>

lemma create_l1_short:
  "create_l1 sys conf l1dir =
     (\<lambda>w. if os_exists sys l1dir w then lift (Inl (SystemExit 1)) w else lift (Inl TypeError) w)"
  by (rule ext) (simp add: create_l1_def bind_def lift_def error_def raise_def info_def)

lemma build_layers_short:
  "build_layers sys conf l1dir deps h =
     bind (\<lambda>w. if \<not> os_exists sys (layer_dir sys conf ''l2'' ''fs'' h) w
               then lift (Inl TypeError) w else ret () w) (\<lambda>_.
     bind (try_finally
            (bind (mount sys l1dir (layer_dir sys conf ''l2'' ''fs'' h)
                     (layer_dir sys conf ''l2'' ''overlay_work'' h)
                     (layer_dir sys conf ''l2'' ''overlay_mount'' h)) (\<lambda>_.
             bind (\<lambda>w. if \<not> os_exists sys (layer_dir sys conf ''l3'' ''fs'' h) w
                       then lift (Inl TypeError) w else ret () w) (\<lambda>_.
             build_l3 sys conf h)))
            (umount sys (layer_dir sys conf ''l2'' ''overlay_mount'' h)))
       (export_artifacts sys conf h))"
  by (simp add: build_layers_def Let_def info_path bind_lift_Inl bind_info_str create_l2_raises
      cong: if_cong)

lemma build_short:
  "build sys conf =
     bind (\<lambda>w. if \<not> os_exists sys (l1_dir sys conf) w then lift (Inl TypeError) w else ret () w) (\<lambda>_.
     bind (extract_build_dependencies sys (l1_dir sys conf)) (\<lambda>(deps, dep_hash).
     build_layers sys conf (l1_dir sys conf) deps dep_hash))"
proof -
  have "(\<lambda>w. if \<not> os_exists sys d w then create_l1 sys conf d w else ret () w)
      = (\<lambda>w. if \<not> os_exists sys d w then lift (Inl TypeError) w else ret () w)" for d
    by (rule ext) (simp add: create_l1_short)
  then show ?thesis
    by (simp add: build_def Let_def bind_info_str)
qed

subsection \<open>Commands that differ, whatever the paths\<close>

lemma install_deps_ne_mount: "mount_cmd l u k m \<noteq> nspawn_cmd (install_deps_cmd m') [] []"
  by (simp add: nspawn_cmd_def mount_cmd_def)

lemma install_deps_ne_umount: "umount_cmd m \<noteq> nspawn_cmd (install_deps_cmd m') [] []"
  by (simp add: nspawn_cmd_def umount_cmd_def)

lemma install_deps_ne_copy: "copy_src_cmd sys m \<noteq> nspawn_cmd (install_deps_cmd m') [] []"
  by (simp add: nspawn_cmd_def copy_src_cmd_def)

lemma install_deps_ne_buildpackage:
  "nspawn_cmd (buildpackage_cmd conf m) dc scf \<noteq> nspawn_cmd (install_deps_cmd m') [] []"
  by (simp add: nspawn_cmd_def buildpackage_cmd_def install_deps_cmd_def)

lemma install_deps_ne_export:
  "list_all (\<lambda>c. c \<noteq> nspawn_cmd (install_deps_cmd m') [] []) (export_cmds d dest)"
  by (simp add: nspawn_cmd_def export_cmds_def)

text \<open>The simulated run ends in \<^verbatim>\<open>-s .\<close>, the real one in \<^verbatim>\<open>-y .\<close>.\<close>

lemma sim_ne_install_deps:
  "nspawn_cmd (sim_cmd l1dir) [] [] \<noteq> nspawn_cmd (install_deps_cmd m) [] []"
proof
  assume "nspawn_cmd (sim_cmd l1dir) [] [] = nspawn_cmd (install_deps_cmd m) [] []"
  then have "(l1dir @ '' --read-only --overlay=$(pwd)::/srv  -- /usr/bin/apt-get build-dep '') @ ''-s .''
      = (m @ '' -E DEBIAN_FRONTEND=noninteractive --overlay=$(pwd)::/srv  -- /usr/bin/apt-get build-dep '') @ ''-y .''"
    by (simp add: nspawn_cmd_def sim_cmd_def install_deps_cmd_def)
  then have "''-s .'' = ''-y .''"
    by (rule append_eq_append_conv [THEN iffD1, THEN conjunct2, rotated]) simp
  then show False by simp
qed

lemma not_l2_creation:
  "\<not> l2_creation sys conf h (MountCall m)"
  "\<not> l2_creation sys conf h (Mounted m)"
  "\<not> l2_creation sys conf h (UmountCall m)"
  "\<not> l2_creation sys conf h (Write f d)"
  "\<not> l2_creation sys conf h (Popen (mount_cmd l u k m))"
  "\<not> l2_creation sys conf h (Popen (umount_cmd m))"
  "\<not> l2_creation sys conf h (Popen (copy_src_cmd sys m))"
  "\<not> l2_creation sys conf h (Popen (nspawn_cmd (buildpackage_cmd conf m) dc scf))"
  "\<not> l2_creation sys conf h (Popen (nspawn_cmd (sim_cmd l1dir) [] []))"
  by (simp_all add: l2_creation_def install_deps_ne_mount install_deps_ne_umount
      install_deps_ne_copy install_deps_ne_buildpackage sim_ne_install_deps)

lemma not_l2_creation_export:
  "list_all (\<lambda>c. \<not> l2_creation sys conf h (Popen c)) (export_cmds d dest)"
  using install_deps_ne_export [of "layer_dir sys conf ''l2'' ''overlay_mount'' h" d dest]
  by (simp add: l2_creation_def)




subsection \<open>What every event of a build satisfies\<close>

text \<open>
  A property of events that holds of the calls of \<^verbatim>\<open>mount\<close> and \<^verbatim>\<open>umount\<close> and of
  the commands a build starts holds of every event of the build.
\<close>

lemma all_build_layers:
  assumes "\<And>m. Q (MountCall m)" "\<And>m. Q (Mounted m)" "\<And>m. Q (UmountCall m)"
    and "\<And>l u k m. Q (Popen (mount_cmd l u k m))"
    and "\<And>m. Q (Popen (umount_cmd m))"
    and "\<And>m. Q (Popen (copy_src_cmd sys m))"
    and "\<And>m. Q (Popen (nspawn_cmd (buildpackage_cmd conf m) (drop_capability conf) (system_call_filter conf)))"
    and "\<And>d dest. list_all (\<lambda>c. Q (Popen c)) (export_cmds d dest)"
  shows "list_all Q (evs (build_layers sys conf l1dir deps h w))"
  unfolding build_layers_short
  by (intro all_bind all_try_finally all_mount all_umount all_if all_ret all_lift
      all_build_l3 all_export_artifacts assms)

lemma all_build:
  assumes "\<And>m. Q (MountCall m)" "\<And>m. Q (Mounted m)" "\<And>m. Q (UmountCall m)"
    and "\<And>l u k m. Q (Popen (mount_cmd l u k m))"
    and "\<And>m. Q (Popen (umount_cmd m))"
    and "\<And>m. Q (Popen (copy_src_cmd sys m))"
    and "\<And>m. Q (Popen (nspawn_cmd (buildpackage_cmd conf m) (drop_capability conf) (system_call_filter conf)))"
    and "\<And>d dest. list_all (\<lambda>c. Q (Popen c)) (export_cmds d dest)"
    and "Q (Popen (nspawn_cmd (sim_cmd (l1_dir sys conf)) [] []))"
  shows "list_all Q (evs (build sys conf w))"
  unfolding build_short
  by (intro all_bind all_if all_ret all_lift)
    (simp_all add: evs_extract split_def all_build_layers assms)

lemma no_l2_creation_in_build:
  "list_all (\<lambda>e. \<not> l2_creation sys conf h e) (evs (build sys conf w))"
  by (intro all_build not_l2_creation not_l2_creation_export)



subsection \<open>The build that finds no L2\<close>

lemma build_layers_cache_miss:
  assumes "\<not> os_exists sys (layer_dir sys conf ''l2'' ''fs'' h) w"
  shows "build_layers sys conf l1dir deps h w = (Inl TypeError, w, [])"
  unfolding build_layers_short using assms by (simp add: bind_def lift_def)

lemma build_cache_miss:
  assumes "os_exists sys (l1_dir sys conf) w0"
    and "extract_build_dependencies sys (l1_dir sys conf) w0 = (Inr (deps, dep_hash), w, t)"
    and "\<not> os_exists sys (layer_dir sys conf ''l2'' ''fs'' dep_hash) w"
  shows "build sys conf w0 = (Inl TypeError, w, t)"
  using build_after_fingerprint [OF assms(1,2)] build_layers_cache_miss [OF assms(3)]
  by (simp add: prepend_def res_def world_def evs_def)

subsection \<open>The build that finds the layers\<close>

lemma prefix_bind:
  "prefix xs (evs (m w)) \<Longrightarrow> prefix xs (evs (bind m f w))"
  by (auto simp: evs_bind split: sum.splits)

lemma prefix_try_finally:
  "prefix xs (evs (body w)) \<Longrightarrow> prefix xs (evs (try_finally body fin w))"
  by (simp add: evs_try_finally)

lemma prefix_mount:
  "prefix [MountCall m, Popen (mount_cmd l u k m)] (evs (mount sys l u k m w))"
  unfolding mount_def by (simp add: evs_bind split: sum.splits)

text \<open>Lines 327 to 331 where the L2 directory exists: the first thing is the mount.\<close>

lemma build_layers_mounts_first:
  assumes "os_exists sys (layer_dir sys conf ''l2'' ''fs'' h) w"
  shows "prefix [MountCall (layer_dir sys conf ''l2'' ''overlay_mount'' h),
                 Popen (mount_cmd l1dir (layer_dir sys conf ''l2'' ''fs'' h)
                          (layer_dir sys conf ''l2'' ''overlay_work'' h)
                          (layer_dir sys conf ''l2'' ''overlay_mount'' h))]
           (evs (build_layers sys conf l1dir deps h w))"
proof -
  have "prefix [MountCall (layer_dir sys conf ''l2'' ''overlay_mount'' h),
                 Popen (mount_cmd l1dir (layer_dir sys conf ''l2'' ''fs'' h)
                          (layer_dir sys conf ''l2'' ''overlay_work'' h)
                          (layer_dir sys conf ''l2'' ''overlay_mount'' h))]
          (evs (bind (try_finally
             (bind (mount sys l1dir (layer_dir sys conf ''l2'' ''fs'' h)
                          (layer_dir sys conf ''l2'' ''overlay_work'' h)
                          (layer_dir sys conf ''l2'' ''overlay_mount'' h)) k)
             (umount sys (layer_dir sys conf ''l2'' ''overlay_mount'' h))) e w))" for k e
    by (intro prefix_bind prefix_try_finally prefix_mount)
  then show ?thesis
    unfolding build_layers_short
    by (subst evs_bind) (simp add: assms)
qed

text \<open>So a build that finds the L2 directory of its fingerprint mounts it first.\<close>

lemma build_cache_hit:
  assumes "os_exists sys (l1_dir sys conf) w0"
    and "extract_build_dependencies sys (l1_dir sys conf) w0 = (Inr (deps, dep_hash), w, t)"
    and "os_exists sys (layer_dir sys conf ''l2'' ''fs'' dep_hash) w"
  shows "prefix (t @ [MountCall (layer_dir sys conf ''l2'' ''overlay_mount'' dep_hash),
                       Popen (mount_cmd (l1_dir sys conf) (layer_dir sys conf ''l2'' ''fs'' dep_hash)
                                (layer_dir sys conf ''l2'' ''overlay_work'' dep_hash)
                                (layer_dir sys conf ''l2'' ''overlay_mount'' dep_hash))])
           (evs (build sys conf w0))"
  using build_after_fingerprint [OF assms(1,2)] build_layers_mounts_first [OF assms(3)]
  by simp






subsection \<open>The build changes the world through its commands only\<close>


















section \<open>The claims\<close>

text \<open>
  C1, as the specification states it: in every build session the number of calls of
  \<^verbatim>\<open>umount\<close> equals the number of successful mounts. It fails where a mount fails:
  with the base system and both layers of the fingerprint in place and a
  \<^verbatim>\<open>mount\<close> command that returns 32, \<^verbatim>\<open>build\<close> calls \<^verbatim>\<open>umount\<close> once (the
  \<^verbatim>\<open>finally\<close> of the \<^verbatim>\<open>try\<close> that holds the call of \<^verbatim>\<open>mount\<close>) and no mount
  succeeded.
\<close>

theorem build_umount_after_failed_mount:
  "length (filter is_umount_call (evs (build (demo_sys demo_rc_mount_fails) demo_conf demo_world))) = 1
   \<and> length (filter is_mounted (evs (build (demo_sys demo_rc_mount_fails) demo_conf demo_world))) = 0
   \<and> length (filter is_umount_call (evs (build (demo_sys demo_rc_mount_fails) demo_conf demo_world)))
       \<noteq> length (filter is_mounted (evs (build (demo_sys demo_rc_mount_fails) demo_conf demo_world)))"
  by code_simp

text \<open>
  C1, amended: in every build session, however it ends, the calls of \<^verbatim>\<open>umount\<close>
  are as many as the calls of \<^verbatim>\<open>mount\<close> (successful or not), each call of
  \<^verbatim>\<open>umount\<close> names the mount point of the latest call of \<^verbatim>\<open>mount\<close> not yet
  answered, a mount that succeeds is the one just called, and none is left open at
  the end; so every successful mount is unmounted, innermost first. The events are
  part of the outcome that carries the exception, so all of this has happened before
  the caller sees the error. The same holds of the mount cycle of \<^verbatim>\<open>create_l2\<close>
  (lines 285 to 305).
\<close>

theorem build_mounts_balanced:
  "unwind [] (evs (build sys conf w)) = Some []
   \<and> length (filter is_umount_call (evs (build sys conf w)))
       = length (filter is_mount_call (evs (build sys conf w)))
   \<and> unwind [] (evs (create_l2_steps sys conf l1dir l2dir l2workdir l2mountdir deps w)) = Some []"
proof -
  have b: "unwind [] (evs (build sys conf w)) = Some []"
    using neutral_build [of sys conf] by (simp add: neutral_def)
  have c: "unwind [] (evs (create_l2_steps sys conf l1dir l2dir l2workdir l2mountdir deps w)) = Some []"
    using neutral_create_l2_steps [of sys conf l1dir l2dir l2workdir l2mountdir deps]
    by (simp add: neutral_def)
  from unwind_counts [OF b] b c show ?thesis by simp
qed

text \<open>
  C2: the fingerprint does not depend on the order of the tool's output lines. For two
  lists of lines that are permutations of each other, parsing, deduplicating,
  sorting and hashing gives the same dependencies and the same fingerprint, and fails
  on the one list exactly when it fails on the other.
\<close>

theorem fingerprint_order_invariant:
  assumes "mset out1 = mset out2"
  shows "(deps_and_fingerprint sys out1 = Inr r) = (deps_and_fingerprint sys out2 = Inr r)"
proof -
  have "set out1 = set out2" using assms by (rule mset_eq_setD)
  then show ?thesis
    unfolding deps_and_fingerprint_def
    by (intro case_sum_Inr_cong parse_build_deps_set)
qed

theorem fingerprint_order_invariant_witness:
  "mset demo_out = mset (rev demo_out)
   \<and> deps_and_fingerprint (demo_sys (\<lambda>c. 0)) demo_out
       = Inr ([(''libbar'', ''2.0''), (''libfoo'', ''1.0'')], ''0f1e2d3c4b'')
   \<and> deps_and_fingerprint (demo_sys (\<lambda>c. 0)) (rev demo_out)
       = Inr ([(''libbar'', ''2.0''), (''libfoo'', ''1.0'')], ''0f1e2d3c4b'')"
proof -
  have p: "mset demo_out = mset (rev demo_out)" by simp
  have a: "deps_and_fingerprint (demo_sys (\<lambda>c. 0)) demo_out
       = Inr ([(''libbar'', ''2.0''), (''libfoo'', ''1.0'')], ''0f1e2d3c4b'')"
    by code_simp
  from fingerprint_order_invariant
    [OF p, of "demo_sys (\<lambda>c. 0)" "([(''libbar'', ''2.0''), (''libfoo'', ''1.0'')], ''0f1e2d3c4b'')"] a
  have "deps_and_fingerprint (demo_sys (\<lambda>c. 0)) (rev demo_out)
       = Inr ([(''libbar'', ''2.0''), (''libfoo'', ''1.0'')], ''0f1e2d3c4b'')"
    by blast
  with a p show ?thesis by blast
qed

text \<open>
  C3: the line \<^verbatim>\<open>Inst foo (1.2-3 Debian:unstable [amd64]) []\<close> parses to the pair of
  \<^verbatim>\<open>foo\<close> and \<^verbatim>\<open>1.2-3\<close>; the line \<^verbatim>\<open>Inst foo 1.2-3 ...\<close>, whose version field
  does not begin with a parenthesis, raises the parse failure (the \<^verbatim>\<open>assert\<close>); and
  the lines that do not begin with \<^verbatim>\<open>Inst\<close> and a space contribute nothing: the
  result is that of the other lines alone.
\<close>

theorem parse_contract:
  "parse_build_deps [''Inst foo (1.2-3 Debian:unstable [amd64]) []''] = Inr [(''foo'', ''1.2-3'')]
   \<and> parse_build_deps [''Inst foo 1.2-3 ...''] = Inl AssertionError
   \<and> parse_build_deps (filter (prefix ''Inst '') out) = parse_build_deps out"
  by (simp add: parse_build_deps_def parse_line_def eval_nat_numeral parse_loop_filter)

text \<open>
  C4: two consecutive builds with the same dependencies create the L2 layer once and
  the second build reuses it. The code does not: no build creates an L2 layer. For
  every fingerprint \<open>h\<close>, no build makes one of the three L2 directories of \<open>h\<close> or
  runs the installation of the dependencies in its mount point; and a build that finds
  the base system, computes the fingerprint and finds no L2 directory for it ends at
  the first statement of \<^verbatim>\<open>create_l2\<close> with \<^verbatim>\<open>TypeError\<close>, in the world the
  fingerprint run left and with nothing started but that run. The L2 directory is
  then as absent as before, so the next build ends in the same way.
\<close>

theorem build_cache_miss_aborts:
  "list_all (\<lambda>e. \<not> l2_creation sys conf h e) (evs (build sys conf w0))
   \<and> (os_exists sys (l1_dir sys conf) w0
      \<and> extract_build_dependencies sys (l1_dir sys conf) w0 = (Inr (deps, dep_hash), w, t)
      \<and> \<not> os_exists sys (layer_dir sys conf ''l2'' ''fs'' dep_hash) w
      \<longrightarrow> build sys conf w0 = (Inl TypeError, w, t))"
  using build_cache_miss [of sys conf w0 deps dep_hash w t]
  by (simp add: no_l2_creation_in_build)

text \<open>
  Two consecutive builds in a world that holds the base system and nothing else, where
  every command succeeds: both end with \<^verbatim>\<open>TypeError\<close> after the fingerprint run, and
  the L2 directory of the fingerprint exists after neither.
\<close>

theorem build_cache_miss_aborts_witness:
  "os_exists (demo_sys (\<lambda>c. 0)) (l1_dir (demo_sys (\<lambda>c. 0)) demo_conf) [''/c/l1/sid'']
   \<and> extract_build_dependencies (demo_sys (\<lambda>c. 0)) (l1_dir (demo_sys (\<lambda>c. 0)) demo_conf) [''/c/l1/sid'']
       = (Inr ([(''libbar'', ''2.0''), (''libfoo'', ''1.0'')], ''0f1e2d3c4b''), [''/c/l1/sid''],
          [Popen (nspawn_cmd (sim_cmd ''/c/l1/sid'') [] [])])
   \<and> \<not> os_exists (demo_sys (\<lambda>c. 0)) (layer_dir (demo_sys (\<lambda>c. 0)) demo_conf ''l2'' ''fs'' ''0f1e2d3c4b'')
         [''/c/l1/sid'']
   \<and> build (demo_sys (\<lambda>c. 0)) demo_conf [''/c/l1/sid'']
       = (Inl TypeError, [''/c/l1/sid''], [Popen (nspawn_cmd (sim_cmd ''/c/l1/sid'') [] [])])
   \<and> build (demo_sys (\<lambda>c. 0)) demo_conf (world (build (demo_sys (\<lambda>c. 0)) demo_conf [''/c/l1/sid'']))
       = (Inl TypeError, [''/c/l1/sid''], [Popen (nspawn_cmd (sim_cmd ''/c/l1/sid'') [] [])])
   \<and> \<not> os_exists (demo_sys (\<lambda>c. 0)) (layer_dir (demo_sys (\<lambda>c. 0)) demo_conf ''l2'' ''fs'' ''0f1e2d3c4b'')
         (world (build (demo_sys (\<lambda>c. 0)) demo_conf
            (world (build (demo_sys (\<lambda>c. 0)) demo_conf [''/c/l1/sid'']))))"
proof -
  have l1: "os_exists (demo_sys (\<lambda>c. 0)) (l1_dir (demo_sys (\<lambda>c. 0)) demo_conf) [''/c/l1/sid'']"
    by code_simp
  have fp: "extract_build_dependencies (demo_sys (\<lambda>c. 0)) (l1_dir (demo_sys (\<lambda>c. 0)) demo_conf) [''/c/l1/sid'']
       = (Inr ([(''libbar'', ''2.0''), (''libfoo'', ''1.0'')], ''0f1e2d3c4b''), [''/c/l1/sid''],
          [Popen (nspawn_cmd (sim_cmd ''/c/l1/sid'') [] [])])"
    by code_simp
  have l2: "\<not> os_exists (demo_sys (\<lambda>c. 0)) (layer_dir (demo_sys (\<lambda>c. 0)) demo_conf ''l2'' ''fs'' ''0f1e2d3c4b'')
         [''/c/l1/sid'']"
    by code_simp
  from build_cache_miss_aborts [of "demo_sys (\<lambda>c. 0)" demo_conf "''0f1e2d3c4b''" "[''/c/l1/sid'']"
      "[(''libbar'', ''2.0''), (''libfoo'', ''1.0'')]" "''0f1e2d3c4b''" "[''/c/l1/sid'']"
      "[Popen (nspawn_cmd (sim_cmd ''/c/l1/sid'') [] [])]"] l1 fp l2
  have b: "build (demo_sys (\<lambda>c. 0)) demo_conf [''/c/l1/sid'']
       = (Inl TypeError, [''/c/l1/sid''], [Popen (nspawn_cmd (sim_cmd ''/c/l1/sid'') [] [])])"
    by blast
  then have w: "world (build (demo_sys (\<lambda>c. 0)) demo_conf [''/c/l1/sid'']) = [''/c/l1/sid'']"
    by (simp add: world_def)
  from l1 fp l2 b show ?thesis
    unfolding w by blast
qed

text \<open>
  C5: on the cache-miss path the creation of L2 makes the three directories, mounts
  with the base system below, installs the dependencies, writes the manifest, cleans
  the package caches and unmounts. The code does not: \<^verbatim>\<open>create_l2\<close> passes the
  path \<^verbatim>\<open>l2dir\<close> to \<^verbatim>\<open>info\<close> in its first statement, which raises
  \<^verbatim>\<open>TypeError\<close> before any directory exists, whatever the system does; and in the
  statements after it the cleaning command is only assigned, so no run of them starts
  it. A build that finds the base system but no L2 for its fingerprint ends there.
\<close>

theorem create_l2_stops_and_never_cleans:
  "create_l2 sys conf l1dir l2dir l2workdir l2mountdir deps w = (Inl TypeError, w, [])
   \<and> list_all (\<lambda>e. e \<noteq> Popen (nspawn_cmd (clean_cmd l2mountdir) [] []))
       (evs (create_l2_steps sys conf l1dir l2dir l2workdir l2mountdir deps w))
   \<and> build (demo_sys (\<lambda>c. 0)) demo_conf [''/c/l1/sid'']
       = (Inl TypeError, [''/c/l1/sid''], [Popen (nspawn_cmd (sim_cmd ''/c/l1/sid'') [] [])])"
proof -
  have "create_l2 sys conf l1dir l2dir l2workdir l2mountdir deps w = (Inl TypeError, w, [])"
    by (simp add: create_l2_def bind_def lift_def info_def)
  moreover have "build (demo_sys (\<lambda>c. 0)) demo_conf [''/c/l1/sid'']
       = (Inl TypeError, [''/c/l1/sid''], [Popen (nspawn_cmd (sim_cmd ''/c/l1/sid'') [] [])])"
    by code_simp
  ultimately show ?thesis by (simp add: create_l2_steps_never_cleans)
qed

text \<open>
  C6: with L2 layers aged 5, 40, 2 and 35 days, a maximal age of 30 days and a
  maximal number of 10, purging deletes the layers aged 40 and 35. The code has no
  purge: the action raises \<^verbatim>\<open>NotImplementedError\<close> in every world, with no event
  and the world as it was, so no layer is deleted whatever its age.
\<close>

theorem purge_not_implemented:
  "main sys (conf\<lparr>action := ''purge''\<rparr>) w = (Inl NotImplementedError, w, [])"
  by (simp add: main_def bind_def ret_def raise_def)

text \<open>
  C7: where the L1 directory of the code name exists, creating the base system
  fails (the program exits with status 1, the layer conflict), starts no command, so
  not the bootstrap tool, makes no directory and leaves the world as it was. So does
  the action \<^verbatim>\<open>create\<close> of \<^verbatim>\<open>main\<close>.
\<close>

theorem create_l1_over_existing:
  assumes "os_exists sys (l1_dir sys conf) w"
  shows "create_l1 sys conf (l1_dir sys conf) w = (Inl (SystemExit 1), w, [])
       \<and> main sys (conf\<lparr>action := ''create''\<rparr>) w = (Inl (SystemExit 1), w, [])"
proof -
  have a: "create_l1 sys conf' (l1_dir sys conf) w = (Inl (SystemExit 1), w, [])" for conf'
    using assms by (rule create_l1_exists)
  have "l1_dir sys (conf\<lparr>action := ''create''\<rparr>) = l1_dir sys conf" by (simp add: l1_dir_def)
  then have "main sys (conf\<lparr>action := ''create''\<rparr>) w = (Inl (SystemExit 1), w, [])"
    by (simp add: main_def bind_def a)
  with a show ?thesis by simp
qed

theorem create_l1_over_existing_witness:
  "os_exists (demo_sys (\<lambda>c. 0)) (l1_dir (demo_sys (\<lambda>c. 0)) demo_conf) demo_world
   \<and> create_l1 (demo_sys (\<lambda>c. 0)) demo_conf (l1_dir (demo_sys (\<lambda>c. 0)) demo_conf) demo_world
       = (Inl (SystemExit 1), demo_world, [])
   \<and> main (demo_sys (\<lambda>c. 0)) (demo_conf\<lparr>action := ''create''\<rparr>) demo_world
       = (Inl (SystemExit 1), demo_world, [])"
proof -
  have e: "os_exists (demo_sys (\<lambda>c. 0)) (l1_dir (demo_sys (\<lambda>c. 0)) demo_conf) demo_world"
    by (simp add: demo_sys_def l1_dir_def pjoin_def demo_conf_def demo_world_def)
  from create_l1_over_existing [OF e] e show ?thesis by simp
qed

text \<open>
  C8: updating changes the world only through the two runs in the namespace rooted at
  the L1 directory (the refresh of the package lists, then the upgrade; the second
  only if the first succeeded). It makes no directory, writes no file, mounts nothing
  and creates or rebuilds no L2. So whatever these two runs leave as it is (\<open>obs\<close>:
  the L2 layers, their content, work and mount directories and their manifests, all
  outside the root of the two runs) the update leaves as it is.
\<close>

theorem update_l1_frame:
  assumes "\<And>v. obs (snd (os_popen sys (nspawn_cmd (update_cmd l1dir) [] []) v)) = obs v"
    and "\<And>v. obs (snd (os_popen sys (nspawn_cmd (upgrade_cmd l1dir) [] []) v)) = obs v"
  shows "obs (world (update_l1 sys conf l1dir w)) = obs w
       \<and> (evs (update_l1 sys conf l1dir w) = [Popen (nspawn_cmd (update_cmd l1dir) [] [])]
          \<or> evs (update_l1 sys conf l1dir w)
              = [Popen (nspawn_cmd (update_cmd l1dir) [] []),
                 Popen (nspawn_cmd (upgrade_cmd l1dir) [] [])])"
proof -
  have "obs (world (update_l1 sys conf l1dir w)) = obs w"
    unfolding update_l1_def
    by (simp add: world_bind info_def nspawn_def world_run assms split: sum.splits)
  moreover have "evs (update_l1 sys conf l1dir w) = [Popen (nspawn_cmd (update_cmd l1dir) [] [])]
          \<or> evs (update_l1 sys conf l1dir w)
              = [Popen (nspawn_cmd (update_cmd l1dir) [] []),
                 Popen (nspawn_cmd (upgrade_cmd l1dir) [] [])]"
    unfolding update_l1_def
    by (simp add: evs_bind info_def split: sum.splits)
  ultimately show ?thesis by simp
qed

theorem update_l1_frame_witness:
  "(\<forall>v. filter (prefix ''/c/l2/'')
           (snd (os_popen (demo_sys (\<lambda>c. 0)) (nspawn_cmd (update_cmd ''/c/l1/sid'') [] []) v))
        = filter (prefix ''/c/l2/'') v)
   \<and> (\<forall>v. filter (prefix ''/c/l2/'')
           (snd (os_popen (demo_sys (\<lambda>c. 0)) (nspawn_cmd (upgrade_cmd ''/c/l1/sid'') [] []) v))
        = filter (prefix ''/c/l2/'') v)
   \<and> filter (prefix ''/c/l2/'')
       (world (update_l1 (demo_sys (\<lambda>c. 0)) demo_conf ''/c/l1/sid'' demo_world))
       = [''/c/l2/fs/0f1e2d3c4b'', ''/c/l2/overlay_mount/0f1e2d3c4b/usr/bin/apt'']"
proof -
  have a: "filter (prefix ''/c/l2/'') (snd (os_popen (demo_sys (\<lambda>c. 0)) c v))
         = filter (prefix ''/c/l2/'') v" for c v
    by (simp add: demo_sys_def)
  have d: "filter (prefix ''/c/l2/'') demo_world
         = [''/c/l2/fs/0f1e2d3c4b'', ''/c/l2/overlay_mount/0f1e2d3c4b/usr/bin/apt'']"
    by (simp add: demo_world_def)
  from update_l1_frame [of "filter (prefix ''/c/l2/'')" "demo_sys (\<lambda>c. 0)" "''/c/l1/sid''"
      demo_conf demo_world, OF a a] a d
  show ?thesis by simp
qed

text \<open>
  C9: the install action copies the package files into the mounted temporary layer
  and then runs an interactive shell in the namespace, not the installation it
  prepared. The code does not get there: \<^verbatim>\<open>install\<close> passes the path \<^verbatim>\<open>l2dir\<close> to
  \<^verbatim>\<open>info\<close> (line 391), or where the base system is missing \<^verbatim>\<open>create_l1\<close> passes
  \<^verbatim>\<open>l1dir\<close>, and raises \<^verbatim>\<open>TypeError\<close> with nothing made, mounted, copied or run, in
  every world. In the statements after line 391 the installation command is assigned
  and overwritten, so no run of them starts it.
\<close>

theorem install_stops_and_never_installs:
  "install sys conf w = (Inl TypeError, w, [])
   \<and> list_all (\<lambda>e. e \<noteq> Popen (nspawn_cmd (apt_install_cmd l2mountdir) [] []))
       (evs (install_steps sys conf l1dir l2dir l2workdir l2mountdir w))"
proof -
  have "install sys conf w = (Inl TypeError, w, [])"
    by (cases "os_exists sys (l1_dir sys conf) w")
      (simp_all add: install_def Let_def bind_def lift_def info_def ret_def create_l1_absent)
  then show ?thesis by (simp add: install_steps_never_installs)
qed



end
